theory Spec2Isabelle
  imports Main "HOL-Library.Sublist"
begin

section \<open>Runtime values\<close>

text \<open>
  The permission core of \<^verbatim>\<open>src/permissions/core.ts\<close> is typed with \<^verbatim>\<open>any\<close> in its
  implementation signatures, so its behaviour is decided by the runtime value a
  \<^verbatim>\<open>verify\<close> function hands back. The values are modelled by their kind: the primitives,
  functions, and objects as the list of their properties (name and value, in insertion
  order, the names distinct; the list stands for every property the \<^verbatim>\<open>in\<close> operator can
  see). Numbers are the integer-valued numbers and \<^verbatim>\<open>NaN\<close>: the code only ever asks
  whether a number is falsy, which is the case for zero and \<^verbatim>\<open>NaN\<close> alone.

  The one place where a function held by a value is called is \<^verbatim>\<open>await\<close>, which calls a
  callable \<^verbatim>\<open>then\<close> property of the object it is given, as
  \<^verbatim>\<open>then(resolve, reject)\<close>. A function value is therefore modelled by what that call
  comes to: it calls \<^verbatim>\<open>resolve\<close> with a value first, or it calls \<^verbatim>\<open>reject\<close> with a value
  (or throws it) first, or it does neither.
\<close>

datatype 'v then_effect = Resolves 'v | Rejects 'v | Calls_neither

datatype jsval =
    Undefined
  | Null
  | Bool bool
  | Num int
  | NaN
  | BigInt int
  | Str string
  | Symbol string
  | Function "jsval then_effect"
  | Obj "(string \<times> jsval) list"

text \<open>\<^verbatim>\<open>ToBoolean\<close>: what \<^verbatim>\<open>!result\<close>, \<^verbatim>\<open>result || ...\<close> and \<^verbatim>\<open>if (type)\<close> test.\<close>

fun truthy :: "jsval \<Rightarrow> bool" where
  "truthy Undefined = False"
| "truthy Null = False"
| "truthy (Bool b) = b"
| "truthy (Num n) = (n \<noteq> 0)"
| "truthy NaN = False"
| "truthy (BigInt n) = (n \<noteq> 0)"
| "truthy (Str s) = (s \<noteq> [])"
| "truthy (Symbol s) = True"
| "truthy (Function f) = True"
| "truthy (Obj ps) = True"

text \<open>The \<^verbatim>\<open>typeof\<close> operator.\<close>

fun typeof :: "jsval \<Rightarrow> string" where
  "typeof Undefined = ''undefined''"
| "typeof Null = ''object''"
| "typeof (Bool b) = ''boolean''"
| "typeof (Num n) = ''number''"
| "typeof NaN = ''number''"
| "typeof (BigInt n) = ''bigint''"
| "typeof (Str s) = ''string''"
| "typeof (Symbol s) = ''symbol''"
| "typeof (Function f) = ''function''"
| "typeof (Obj ps) = ''object''"

text \<open>
  \<^verbatim>\<open>key in value\<close>. On a value that is not an object the operator raises a
  \<^verbatim>\<open>TypeError\<close>; its only use, in \<^verbatim>\<open>isDenied\<close>, is guarded by
  \<^verbatim>\<open>typeof perm === "object" && perm\<close>, which only objects pass
  (lemma \<open>object_guard\<close> below), so the other equation is never reached.
\<close>

fun has_property :: "string \<Rightarrow> jsval \<Rightarrow> bool" where
  "has_property k (Obj ps) = (k \<in> set (map fst ps))"
| "has_property k v = False"

section \<open>Declaration\<close>

datatype PermissionCategory = Unit | Complex

text \<open>\<^verbatim>\<open>PermissionTypeRuntime\<close>: the data of a permission kind present at runtime.\<close>

record PermissionTypeRuntime =
  brand :: string
  category :: PermissionCategory

text \<open>\<^verbatim>\<open>ofType<T>()\<close> returns the empty object \<^verbatim>\<open>{}\<close>, whatever \<^verbatim>\<open>T\<close> is.\<close>

definition ofType :: jsval where
  "ofType = Obj []"

text \<open>
  \<^verbatim>\<open>declare(brand, type?)\<close>, named \<open>declare_perm\<close> here since \<^verbatim>\<open>declare\<close> is a
  command of Isabelle. An omitted second argument is \<^verbatim>\<open>undefined\<close>.
\<close>

definition declare_perm :: "string \<Rightarrow> jsval \<Rightarrow> PermissionTypeRuntime" where
  "declare_perm b type =
     (if truthy type then \<lparr>brand = b, category = Complex\<rparr>
      else \<lparr>brand = b, category = Unit\<rparr>)"

text \<open>\<^verbatim>\<open>unsafeGrant(perm, data?)\<close>. An omitted \<^verbatim>\<open>data\<close> is \<^verbatim>\<open>undefined\<close>.\<close>

definition unsafeGrant :: "PermissionTypeRuntime \<Rightarrow> jsval \<Rightarrow> jsval" where
  "unsafeGrant perm data = (if category perm = Unit then Bool True else data)"

section \<open>Denials and errors\<close>

text \<open>
  \<^verbatim>\<open>deny(denial?)\<close> builds \<^verbatim>\<open>{ denial: denial ?? "Permission denied" }\<close>; the
  operator \<^verbatim>\<open>??\<close> takes its right side when the left is \<^verbatim>\<open>null\<close> or \<^verbatim>\<open>undefined\<close>.
\<close>

definition deny :: "jsval \<Rightarrow> jsval" where
  "deny denial =
     Obj [(''denial'',
       if denial = Null \<or> denial = Undefined then Str ''Permission denied'' else denial)]"

definition isDenied :: "jsval \<Rightarrow> bool" where
  "isDenied perm = (typeof perm = ''object'' \<and> truthy perm \<and> has_property ''denial'' perm)"

text \<open>
  What a call can throw: the \<^verbatim>\<open>PermissionError\<close> of \<^verbatim>\<open>enforce\<close> with its message, or
  whatever value the verification function itself throws or rejects with.
\<close>

datatype error = PermissionError string | Thrown jsval

definition permission_message :: "PermissionTypeRuntime \<Rightarrow> string" where
  \<open>permission_message perm = ''Didn't have permission "'' @ brand perm @ ''"''\<close>

section \<open>The synchronous checker\<close>

text \<open>
  A verification function either returns a value or throws (\<open>Inl\<close>); an exception
  of \<^verbatim>\<open>func\<close> leaves each of the three operations as it is.
\<close>

record 'args PermissionChecker =
  test :: "'args \<Rightarrow> error + jsval"
  check :: "'args \<Rightarrow> error + jsval"
  enforce :: "'args \<Rightarrow> error + jsval"

definition checker ::
  "PermissionTypeRuntime \<Rightarrow> ('args \<Rightarrow> error + jsval) \<Rightarrow> 'args PermissionChecker" where
  "checker perm func =
     \<lparr> test = (\<lambda>args.
         case func args of
           Inl e \<Rightarrow> Inl e
         | Inr result \<Rightarrow> Inr (if \<not> truthy result \<or> isDenied result then Null else result)),
       check = (\<lambda>args.
         case func args of
           Inl e \<Rightarrow> Inl e
         | Inr result \<Rightarrow> Inr (if truthy result then result else deny Undefined)),
       enforce = (\<lambda>args.
         case func args of
           Inl e \<Rightarrow> Inl e
         | Inr result \<Rightarrow>
             if isDenied result \<or> \<not> truthy result
             then Inl (PermissionError (permission_message perm))
             else Inr result) \<rparr>"

section \<open>The asynchronous checker\<close>

text \<open>
  A promise is pending for ever, fulfilled with a value, or rejected. The verification
  function of an asynchronous checker returns a plain value or a promise
  (\<^verbatim>\<open>await\<close> handles both), or throws.
\<close>

datatype promise = Pending | Fulfilled jsval | Rejected error

datatype awaitable = Plain jsval | Promise promise

text \<open>
  A thenable: an object whose \<^verbatim>\<open>then\<close> property is a function.
\<close>

definition thenable :: "jsval \<Rightarrow> bool" where
  "thenable v =
     (case v of
        Obj ps \<Rightarrow> (case map_of ps ''then'' of Some (Function eff) \<Rightarrow> True | _ \<Rightarrow> False)
      | _ \<Rightarrow> False)"

text \<open>
  The final state of a promise that is resolved with a value, which is what happens to
  a value that is not a promise when it is awaited, and to the value an
  \<^verbatim>\<open>async\<close> function returns. A value that is not a thenable fulfils the promise. The
  \<^verbatim>\<open>then\<close> of a thenable is called: the value it passes to \<^verbatim>\<open>resolve\<close> is resolved in
  turn, the value it passes to \<^verbatim>\<open>reject\<close> rejects the promise, and a \<^verbatim>\<open>then\<close> that
  calls neither leaves the promise pending.
\<close>

function (sequential) resolve_value :: "jsval \<Rightarrow> promise" where
  "resolve_value (Obj ps) =
     (case map_of ps ''then'' of
        Some (Function (Resolves x)) \<Rightarrow> resolve_value x
      | Some (Function (Rejects e)) \<Rightarrow> Rejected (Thrown e)
      | Some (Function Calls_neither) \<Rightarrow> Pending
      | _ \<Rightarrow> Fulfilled (Obj ps))"
| "resolve_value v = Fulfilled v"
  by pat_completeness auto
termination
proof (relation "measure size")
  show "wf (measure (size :: jsval \<Rightarrow> nat))" by simp
next
  fix ps :: "(string \<times> jsval) list" and k eff x
  assume m: "map_of ps ''then'' = Some k" and k: "k = Function eff" and eff: "eff = Resolves x"
  have "(''then'', Function (Resolves x)) \<in> set ps"
    using m k eff by (auto dest: map_of_SomeD)
  then have "size x < size (Obj ps)"
    by (induction ps) auto
  then show "(x, Obj ps) \<in> measure size" by simp
qed

text \<open>
  \<^verbatim>\<open>await x\<close>: a promise is awaited as it is, any other value is resolved first.
\<close>

definition await :: "awaitable \<Rightarrow> promise" where
  "await a = (case a of Plain v \<Rightarrow> resolve_value v | Promise p \<Rightarrow> p)"

text \<open>
  \<^verbatim>\<open>async (...args) => { const result = await func(...args); body }\<close>: the promise the
  arrow function returns, where \<open>body\<close> maps the awaited value to a returned value or a
  thrown error. An exception of \<^verbatim>\<open>func\<close>, a rejection of what is awaited and an
  exception of the body reject the promise; a returned value resolves it.
\<close>

definition async_await ::
  "(error + awaitable) \<Rightarrow> (jsval \<Rightarrow> error + jsval) \<Rightarrow> promise" where
  "async_await called body =
     (case called of
        Inl e \<Rightarrow> Rejected e
      | Inr a \<Rightarrow>
          (case await a of
             Pending \<Rightarrow> Pending
           | Rejected e \<Rightarrow> Rejected e
           | Fulfilled result \<Rightarrow>
               (case body result of Inl e \<Rightarrow> Rejected e | Inr v \<Rightarrow> resolve_value v)))"

record 'args AsyncPermissionChecker =
  atest :: "'args \<Rightarrow> promise"
  acheck :: "'args \<Rightarrow> promise"
  aenforce :: "'args \<Rightarrow> promise"

definition asyncChecker ::
  "PermissionTypeRuntime \<Rightarrow> ('args \<Rightarrow> error + awaitable) \<Rightarrow> 'args AsyncPermissionChecker" where
  "asyncChecker perm func =
     \<lparr> atest = (\<lambda>args.
         async_await (func args)
           (\<lambda>result. Inr (if isDenied result \<or> \<not> truthy result then Null else result))),
       acheck = (\<lambda>args.
         async_await (func args)
           (\<lambda>result. Inr (if truthy result then result else deny Undefined))),
       aenforce = (\<lambda>args.
         async_await (func args)
           (\<lambda>result.
              if isDenied result \<or> \<not> truthy result
              then Inl (PermissionError (permission_message perm))
              else Inr result)) \<rparr>"


section \<open>Basic facts\<close>

lemma object_guard:
  "typeof perm = ''object'' \<and> truthy perm \<longleftrightarrow> (\<exists>ps. perm = Obj ps)"
  by (cases perm) auto

lemma isDenied_iff:
  "isDenied perm \<longleftrightarrow> (\<exists>ps. perm = Obj ps \<and> ''denial'' \<in> fst ` set ps)"
  by (cases perm) (auto simp: isDenied_def)

lemma isDenied_deny: "isDenied (deny r)"
  by (simp add: isDenied_def deny_def)

lemma truthy_deny: "truthy (deny r)"
  by (simp add: deny_def)

lemma not_isDenied_falsy: "\<not> truthy v \<Longrightarrow> \<not> isDenied v"
  by (simp add: isDenied_def)

lemma resolve_value_not_thenable: "\<not> thenable v \<Longrightarrow> resolve_value v = Fulfilled v"
  by (cases v) (auto simp: thenable_def split: option.splits jsval.splits then_effect.splits)

lemma not_thenable_deny: "\<not> thenable (deny r)"
  by (simp add: thenable_def deny_def)

lemma not_thenable_Null: "\<not> thenable Null"
  by (simp add: thenable_def)

lemma brand_in_message: "sublist (brand perm) (permission_message perm)"
  unfolding permission_message_def sublist_def by blast

lemma brand_declare_perm: "brand (declare_perm b s) = b"
  by (simp add: declare_perm_def)

section \<open>The synchronous checker on Complex kinds\<close>

text \<open>
  Claim C1, as the code has it. For every declared Complex kind and every verification
  function that returns a value \<open>v\<close> which is truthy and which \<^verbatim>\<open>isDenied\<close> does not
  classify as a Denial (it is not an object with a \<^verbatim>\<open>denial\<close> property), the three
  operations \<^verbatim>\<open>test\<close>, \<^verbatim>\<open>check\<close> and \<^verbatim>\<open>enforce\<close> all return exactly \<open>v\<close>, and
  \<^verbatim>\<open>enforce\<close> does not throw.
\<close>

theorem complex_payload_returned:
  assumes "func args = Inr v" and "truthy v" and "\<not> isDenied v"
  shows "test (checker (declare_perm b ofType) func) args = Inr v
       \<and> check (checker (declare_perm b ofType) func) args = Inr v
       \<and> enforce (checker (declare_perm b ofType) func) args = Inr v"
  using assms by (simp add: checker_def)

theorem complex_payload_returned_witness:
  "test (checker (declare_perm ''PermissionToViewDocument'' ofType)
       (\<lambda>documentId. Inr (Obj [(''documentId'', Num documentId)]))) 5
     = Inr (Obj [(''documentId'', Num 5)])
   \<and> check (checker (declare_perm ''PermissionToViewDocument'' ofType)
       (\<lambda>documentId. Inr (Obj [(''documentId'', Num documentId)]))) 5
     = Inr (Obj [(''documentId'', Num 5)])
   \<and> enforce (checker (declare_perm ''PermissionToViewDocument'' ofType)
       (\<lambda>documentId. Inr (Obj [(''documentId'', Num documentId)]))) 5
     = Inr (Obj [(''documentId'', Num 5)])"
  using complex_payload_returned [of "\<lambda>documentId. Inr (Obj [(''documentId'', Num documentId)])" 5
      "Obj [(''documentId'', Num 5)]" "''PermissionToViewDocument''"]
  by (simp add: isDenied_def)

text \<open>
  Claim C1 as stated, for every payload value, fails: a verification function of a Complex
  kind that returns the number \<^verbatim>\<open>0\<close>, which is no Denial, gets none of the three
  operations to hand \<^verbatim>\<open>0\<close> back (\<^verbatim>\<open>test\<close> gives \<^verbatim>\<open>null\<close>, \<^verbatim>\<open>check\<close> the default
  Denial, \<^verbatim>\<open>enforce\<close> throws), because of the guard \<^verbatim>\<open>!result\<close>.
\<close>

theorem falsy_payload_counterexample:
  "category (declare_perm ''Quota'' ofType) = Complex
   \<and> \<not> isDenied (Num 0)
   \<and> test (checker (declare_perm ''Quota'' ofType) (\<lambda>u. Inr (Num 0))) () \<noteq> Inr (Num 0)
   \<and> check (checker (declare_perm ''Quota'' ofType) (\<lambda>u. Inr (Num 0))) () \<noteq> Inr (Num 0)
   \<and> enforce (checker (declare_perm ''Quota'' ofType) (\<lambda>u. Inr (Num 0))) () \<noteq> Inr (Num 0)"
  by (simp add: checker_def isDenied_def declare_perm_def ofType_def deny_def)

section \<open>Discrimination of Denials\<close>

text \<open>
  Claim C2. For every reason \<open>r\<close> (a string, or \<^verbatim>\<open>undefined\<close> when omitted),
  \<^verbatim>\<open>isDenied(deny(r))\<close> is true, and \<^verbatim>\<open>isDenied(true)\<close> is false. A checker whose
  verification function returns \<^verbatim>\<open>deny(r)\<close> never hands it out as a permission
  instance: \<^verbatim>\<open>test\<close> returns \<^verbatim>\<open>null\<close>, \<^verbatim>\<open>check\<close> returns the Denial itself, and
  \<^verbatim>\<open>enforce\<close> throws the \<^verbatim>\<open>PermissionError\<close>; the asynchronous checker does the same
  through its promises.
\<close>

theorem denial_discrimination:
  "isDenied (deny r) \<and> \<not> isDenied (Bool True)
   \<and> test (checker perm (\<lambda>a. Inr (deny r))) args = Inr Null
   \<and> check (checker perm (\<lambda>a. Inr (deny r))) args = Inr (deny r)
   \<and> enforce (checker perm (\<lambda>a. Inr (deny r))) args = Inl (PermissionError (permission_message perm))
   \<and> atest (asyncChecker perm (\<lambda>a. Inr (Promise (Fulfilled (deny r))))) args = Fulfilled Null
   \<and> acheck (asyncChecker perm (\<lambda>a. Inr (Promise (Fulfilled (deny r))))) args = Fulfilled (deny r)
   \<and> aenforce (asyncChecker perm (\<lambda>a. Inr (Promise (Fulfilled (deny r))))) args
       = Rejected (PermissionError (permission_message perm))"
  by (simp add: checker_def asyncChecker_def async_await_def await_def isDenied_deny truthy_deny
      resolve_value_not_thenable not_thenable_deny)
    (simp add: isDenied_def)

theorem denial_discrimination_witness:
  "isDenied (deny (Str ''not the author'')) \<and> \<not> isDenied (Bool True)
   \<and> test (checker (declare_perm ''ViewDocument'' ofType) (\<lambda>a. Inr (deny (Str ''not the author'')))) (5::int) = Inr Null
   \<and> enforce (checker (declare_perm ''ViewDocument'' ofType) (\<lambda>a. Inr (deny (Str ''not the author'')))) (5::int)
       = Inl (PermissionError (permission_message (declare_perm ''ViewDocument'' ofType)))"
  using denial_discrimination [of "Str ''not the author''" "declare_perm ''ViewDocument'' ofType" "5::int"]
  by simp

section \<open>Unit kinds\<close>

text \<open>
  Claim C3. For every declared Unit kind with brand \<open>b\<close> and every verification
  function that returns \<^verbatim>\<open>false\<close> on the given arguments, \<^verbatim>\<open>test\<close> returns \<^verbatim>\<open>null\<close>
  without throwing, \<^verbatim>\<open>check\<close> returns a Denial (the default one), and \<^verbatim>\<open>enforce\<close>
  throws a \<^verbatim>\<open>PermissionError\<close> whose message contains \<open>b\<close>.
\<close>

theorem unit_false_denied:
  assumes "func args = Inr (Bool False)"
  shows "test (checker (declare_perm b Undefined) func) args = Inr Null
       \<and> check (checker (declare_perm b Undefined) func) args = Inr (deny Undefined)
       \<and> isDenied (deny Undefined)
       \<and> enforce (checker (declare_perm b Undefined) func) args
           = Inl (PermissionError (permission_message (declare_perm b Undefined)))
       \<and> sublist b (permission_message (declare_perm b Undefined))
       \<and> category (declare_perm b Undefined) = Unit"
  using assms brand_in_message [of "declare_perm b Undefined"]
  by (simp add: checker_def isDenied_deny brand_declare_perm) (simp add: declare_perm_def)

theorem unit_false_denied_witness:
  "test (checker (declare_perm ''ChangeSystemSettings'' Undefined)
       (\<lambda>role. Inr (Bool (role = ''admin'')))) ''user'' = Inr Null
   \<and> check (checker (declare_perm ''ChangeSystemSettings'' Undefined)
       (\<lambda>role. Inr (Bool (role = ''admin'')))) ''user'' = Inr (deny Undefined)
   \<and> enforce (checker (declare_perm ''ChangeSystemSettings'' Undefined)
       (\<lambda>role. Inr (Bool (role = ''admin'')))) ''user''
       = Inl (PermissionError (permission_message (declare_perm ''ChangeSystemSettings'' Undefined)))
   \<and> sublist ''ChangeSystemSettings''
       (permission_message (declare_perm ''ChangeSystemSettings'' Undefined))"
  using unit_false_denied [of "\<lambda>role. Inr (Bool (role = ''admin''))" "''user''" "''ChangeSystemSettings''"]
  by simp

text \<open>
  Claim C4. For every declared Unit kind and every verification function that returns
  \<^verbatim>\<open>true\<close> on the given arguments, \<^verbatim>\<open>test\<close> and \<^verbatim>\<open>check\<close> return the literal
  \<^verbatim>\<open>true\<close>, a truthy value, and \<^verbatim>\<open>enforce\<close> returns it too, without throwing.
\<close>

theorem unit_true_granted:
  assumes "func args = Inr (Bool True)"
  shows "test (checker (declare_perm b Undefined) func) args = Inr (Bool True)
       \<and> check (checker (declare_perm b Undefined) func) args = Inr (Bool True)
       \<and> enforce (checker (declare_perm b Undefined) func) args = Inr (Bool True)
       \<and> truthy (Bool True)
       \<and> category (declare_perm b Undefined) = Unit"
  using assms by (simp add: checker_def isDenied_def declare_perm_def)

theorem unit_true_granted_witness:
  "test (checker (declare_perm ''ChangeSystemSettings'' Undefined)
       (\<lambda>role. Inr (Bool (role = ''admin'')))) ''admin'' = Inr (Bool True)
   \<and> check (checker (declare_perm ''ChangeSystemSettings'' Undefined)
       (\<lambda>role. Inr (Bool (role = ''admin'')))) ''admin'' = Inr (Bool True)
   \<and> enforce (checker (declare_perm ''ChangeSystemSettings'' Undefined)
       (\<lambda>role. Inr (Bool (role = ''admin'')))) ''admin'' = Inr (Bool True)"
  using unit_true_granted [of "\<lambda>role. Inr (Bool (role = ''admin''))" "''admin''" "''ChangeSystemSettings''"]
  by simp

section \<open>The reason of a Denial\<close>

text \<open>
  Claim C5. When the verification function returns \<^verbatim>\<open>deny(reason)\<close> for a string
  \<open>reason\<close>, \<^verbatim>\<open>check\<close> returns a Denial whose \<^verbatim>\<open>denial\<close> field is that very string
  (also the empty one); when it returns \<^verbatim>\<open>false\<close> or any other falsy value, \<^verbatim>\<open>check\<close>
  returns a Denial whose \<^verbatim>\<open>denial\<close> field is \<^verbatim>\<open>"Permission denied"\<close>.
\<close>

theorem check_denial_reason:
  "check (checker perm (\<lambda>a. Inr (deny (Str reason)))) args = Inr (Obj [(''denial'', Str reason)])
   \<and> (\<not> truthy r \<longrightarrow>
        check (checker perm (\<lambda>a. Inr r)) args = Inr (Obj [(''denial'', Str ''Permission denied'')]))"
  by (simp add: checker_def deny_def)

theorem check_denial_reason_witness:
  "check (checker (declare_perm ''ViewDocument'' ofType) (\<lambda>a. Inr (deny (Str '''')))) (5::int)
     = Inr (Obj [(''denial'', Str '''')])
   \<and> check (checker (declare_perm ''ViewDocument'' ofType) (\<lambda>a. Inr (Bool False))) (5::int)
     = Inr (Obj [(''denial'', Str ''Permission denied'')])"
  using check_denial_reason [of "declare_perm ''ViewDocument'' ofType" "''''" "5::int" "Bool False"]
  by simp

section \<open>Unsafe grant\<close>

text \<open>
  Claim C6. \<^verbatim>\<open>unsafeGrant\<close> takes a kind and a payload and no verification function, so
  it can call none, and it is total. For a declared Unit kind it returns the literal
  \<^verbatim>\<open>true\<close>, whatever the second argument; for a declared Complex kind it returns the
  payload it was given, unchanged.
\<close>

theorem unsafeGrant_returns:
  "unsafeGrant (declare_perm b Undefined) d = Bool True
   \<and> unsafeGrant (declare_perm c ofType) v = v"
  by (simp add: unsafeGrant_def declare_perm_def ofType_def)

theorem unsafeGrant_returns_witness:
  "unsafeGrant (declare_perm ''ChangeSystemSettings'' Undefined) Undefined = Bool True
   \<and> unsafeGrant (declare_perm ''PermissionToViewDocument'' ofType) (Obj [(''documentId'', Num 32)])
       = Obj [(''documentId'', Num 32)]"
  using unsafeGrant_returns [of "''ChangeSystemSettings''" Undefined "''PermissionToViewDocument''"
      "Obj [(''documentId'', Num 32)]"]
  by (simp add: unsafeGrant_def declare_perm_def ofType_def)

section \<open>The asynchronous checker against the synchronous one\<close>




text \<open>
  Claim C8. When the asynchronous verification function fails on the given arguments,
  by returning a promise that is rejected with \<open>e\<close> or by throwing \<open>e\<close>, each of
  \<^verbatim>\<open>test\<close>, \<^verbatim>\<open>check\<close> and \<^verbatim>\<open>enforce\<close> of the asynchronous checker is rejected with
  that same \<open>e\<close>: none turns it into \<^verbatim>\<open>null\<close>, a Denial or an instance.
\<close>

theorem async_rejection_propagates:
  assumes "func args = Inr (Promise (Rejected e)) \<or> func args = Inl e"
  shows "atest (asyncChecker perm func) args = Rejected e
       \<and> acheck (asyncChecker perm func) args = Rejected e
       \<and> aenforce (asyncChecker perm func) args = Rejected e"
  using assms by (auto simp: asyncChecker_def async_await_def await_def)

theorem async_rejection_propagates_witness:
  "atest (asyncChecker (declare_perm ''PermissionToViewDocument'' ofType)
       (\<lambda>d. Inr (Promise (Rejected (Thrown (Str ''no such document'')))))) (7::int)
     = Rejected (Thrown (Str ''no such document''))
   \<and> acheck (asyncChecker (declare_perm ''PermissionToViewDocument'' ofType)
       (\<lambda>d. Inr (Promise (Rejected (Thrown (Str ''no such document'')))))) (7::int)
     = Rejected (Thrown (Str ''no such document''))
   \<and> aenforce (asyncChecker (declare_perm ''PermissionToViewDocument'' ofType)
       (\<lambda>d. Inr (Promise (Rejected (Thrown (Str ''no such document'')))))) (7::int)
     = Rejected (Thrown (Str ''no such document''))"
  using async_rejection_propagates [of
      "\<lambda>d. Inr (Promise (Rejected (Thrown (Str ''no such document''))))" "7::int"
      "Thrown (Str ''no such document'')" "declare_perm ''PermissionToViewDocument'' ofType"]
  by simp

section \<open>Declaration\<close>

text \<open>
  Claim C9. For every brand \<open>b\<close>, \<^verbatim>\<open>declare(b)\<close> is the descriptor with \<^verbatim>\<open>_brand\<close>
  \<open>b\<close> and category Unit, and \<^verbatim>\<open>declare(b, ofType())\<close> is the descriptor with
  \<^verbatim>\<open>_brand\<close> \<open>b\<close> and category Complex. The descriptor consists of these two fields
  only, so the payload shape is no part of it; the function is total and returns nothing
  but the descriptor.
\<close>

theorem declare_perm_descriptor:
  "declare_perm b Undefined = \<lparr>brand = b, category = Unit\<rparr>
   \<and> declare_perm b ofType = \<lparr>brand = b, category = Complex\<rparr>"
  by (simp add: declare_perm_def ofType_def)

theorem declare_perm_descriptor_witness:
  "declare_perm ''ChangeSystemSettings'' Undefined
     = \<lparr>brand = ''ChangeSystemSettings'', category = Unit\<rparr>
   \<and> declare_perm ''ChangeSystemSettings'' ofType
     = \<lparr>brand = ''ChangeSystemSettings'', category = Complex\<rparr>"
  using declare_perm_descriptor [of "''ChangeSystemSettings''"] by simp

section \<open>Payloads with a property named denial\<close>

text \<open>
  Claim C10. \<^verbatim>\<open>isDenied\<close> is true exactly of the objects (not \<^verbatim>\<open>null\<close>) that have a
  property named \<^verbatim>\<open>denial\<close>, whatever else they hold. Hence there are a Complex kind and
  a payload object with a \<^verbatim>\<open>denial\<close> property, not built by \<^verbatim>\<open>deny\<close>, such that a
  verification function returning this payload is treated as a failure: \<^verbatim>\<open>test\<close>
  returns \<^verbatim>\<open>null\<close> and \<^verbatim>\<open>enforce\<close> throws a \<^verbatim>\<open>PermissionError\<close>.
\<close>

theorem isDenied_by_property:
  "(isDenied v \<longleftrightarrow> (\<exists>ps. v = Obj ps \<and> ''denial'' \<in> fst ` set ps))
   \<and> (\<exists>b payload. category (declare_perm b ofType) = Complex
        \<and> (\<exists>ps. payload = Obj ps \<and> ''denial'' \<in> fst ` set ps)
        \<and> (\<forall>r. payload \<noteq> deny r)
        \<and> test (checker (declare_perm b ofType) (\<lambda>a. Inr payload)) args = Inr Null
        \<and> (\<exists>m. enforce (checker (declare_perm b ofType) (\<lambda>a. Inr payload)) args
              = Inl (PermissionError m)))"
proof -
  let ?p = "Obj [(''documentId'', Num 5), (''denial'', Bool False)]"
  have d: "isDenied ?p" by (simp add: isDenied_def)
  have "category (declare_perm ''AuditDocument'' ofType) = Complex"
    by (simp add: declare_perm_def ofType_def)
  moreover have "\<exists>ps. ?p = Obj ps \<and> ''denial'' \<in> fst ` set ps" by simp
  moreover have "\<forall>r. ?p \<noteq> deny r" by (simp add: deny_def)
  moreover have "test (checker (declare_perm ''AuditDocument'' ofType) (\<lambda>a. Inr ?p)) args = Inr Null"
    using d by (simp add: checker_def)
  moreover have "\<exists>m. enforce (checker (declare_perm ''AuditDocument'' ofType) (\<lambda>a. Inr ?p)) args
              = Inl (PermissionError m)"
    using d by (simp add: checker_def)
  ultimately show ?thesis using isDenied_iff [of v] by blast
qed

theorem isDenied_by_property_witness:
  "isDenied (Obj [(''documentId'', Num 5), (''denial'', Bool False)])
   \<and> \<not> isDenied (Obj [(''documentId'', Num 5)])
   \<and> \<not> isDenied Null"
  using isDenied_by_property [of "Obj [(''documentId'', Num 5), (''denial'', Bool False)]" "()"]
    isDenied_by_property [of "Obj [(''documentId'', Num 5)]" "()"]
    isDenied_by_property [of Null "()"]
  by simp

end
